theory Spec2Isabelle
  imports Main "HOL-Library.Word"
begin

section \<open>Primitive values\<close>

text \<open>
  User-supplied text (titles, descriptions, names, notes) is a JavaScript string: a
  sequence of UTF-16 code units, whose \<open>.length\<close> counts code units. Identifiers
  produced by \<open>uuidv4()\<close>, event type names and the fixed ASCII texts of error messages
  are kept as \<open>string\<close>. A \<open>Date\<close> is its number of milliseconds since the epoch.
  Every call of \<open>uuidv4()\<close> and \<open>new Date()\<close> in the source is an extra argument of
  the function that makes the call.
\<close>

type_synonym jsstring = "16 word list"
type_synonym uuid = string
type_synonym Date = int

text \<open>ECMAScript WhiteSpace and LineTerminator code units, which \<open>String.prototype.trim\<close> strips.\<close>

definition isWhiteSpace :: "16 word \<Rightarrow> bool" where
  "isWhiteSpace c =
     (c \<in> set [0x9, 0xA, 0xB, 0xC, 0xD, 0x20, 0xA0, 0x1680,
               0x2028, 0x2029, 0x202F, 0x205F, 0x3000, 0xFEFF]
      \<or> (0x2000 \<le> c \<and> c \<le> 0x200A))"

definition trim :: "jsstring \<Rightarrow> jsstring" where
  "trim s = rev (dropWhile isWhiteSpace (rev (dropWhile isWhiteSpace s)))"

section \<open>Domain types (types/task.ts, events/task-events.ts, types/core.ts)\<close>

datatype TaskPriority = LOW | MEDIUM | HIGH

datatype TaskStatus = PENDING | COMPLETED | CANCELLED

text \<open>The string value of each member of the \<open>TaskStatus\<close> enum.\<close>

fun statusValue :: "TaskStatus \<Rightarrow> string" where
  "statusValue PENDING = ''pending''"
| "statusValue COMPLETED = ''completed''"
| "statusValue CANCELLED = ''cancelled''"

text \<open>
  The union \<open>TaskEvent\<close> ties each \<open>eventType\<close> literal to the shape of its payload, so
  the pair (eventType, payload) of an event is one constructor, with the payload's fields
  in the order of their declaration; an optional field is an \<open>option\<close>. \<open>OtherEvent ty\<close>
  is a \<open>DomainEvent\<close> whose \<open>eventType\<close> \<open>ty\<close> is none of the four names.
\<close>

datatype EventBody =
    TaskCreated jsstring "jsstring option" TaskPriority "jsstring option"
  | TaskCompleted "jsstring option" "jsstring option"
  | TaskCancelled "jsstring option" "jsstring option"
  | TaskUpdated "jsstring option" "jsstring option" "TaskPriority option" "jsstring option"
  | OtherEvent string

record Metadata =
  source :: string
  isoTimestamp :: Date

record DomainEvent =
  eventId :: uuid
  aggregateId :: uuid
  body :: EventBody
  eventVersion :: int
  timestamp :: Date
  metadata :: "Metadata option"

fun eventTypeOf :: "EventBody \<Rightarrow> string" where
  "eventTypeOf (TaskCreated t d p c) = ''TaskCreated''"
| "eventTypeOf (TaskCompleted c n) = ''TaskCompleted''"
| "eventTypeOf (TaskCancelled r c) = ''TaskCancelled''"
| "eventTypeOf (TaskUpdated t d p u) = ''TaskUpdated''"
| "eventTypeOf (OtherEvent ty) = ty"

definition eventType :: "DomainEvent \<Rightarrow> string" where
  "eventType e = eventTypeOf (body e)"

text \<open>
  The errors of middleware/error-handler.ts, with the parts of their message templates:
  \<open>ValidationError message field\<close>, \<open>NotFoundError resource id\<close>,
  \<open>ConflictError expected current aggregateId\<close> for the message
  "Concurrency conflict: Expected version .., but current version is .. for aggregate ..",
  the plain \<open>Error message\<close>, and the error of the database driver when an INSERT
  violates the named UNIQUE constraint of the table \<open>event_store\<close>.
\<close>

datatype AppError =
    ValidationError string string
  | NotFoundError string uuid
  | ConflictError int int uuid
  | Error string
  | UniqueViolation string

section \<open>The aggregate (AggregateRoot and TaskAggregate)\<close>

record TaskAggregate =
  taskId :: uuid
  version :: int
  uncommittedEvents :: "DomainEvent list"
  title :: jsstring
  description :: "jsstring option"
  priority :: TaskPriority
  status :: TaskStatus
  createdAt :: Date
  updatedAt :: Date
  completedAt :: "Date option"
  cancelledAt :: "Date option"

text \<open>
  \<open>new TaskAggregate(id)\<close>: the identifier is \<open>id || uuidv4()\<close>, the version 0, the
  buffer empty, and the fields have their initialisers; \<open>c\<close> and \<open>u\<close> are the two
  \<open>new Date()\<close> of \<open>_createdAt\<close> and \<open>_updatedAt\<close>.
\<close>

definition newTaskAggregate :: "uuid option \<Rightarrow> uuid \<Rightarrow> Date \<Rightarrow> Date \<Rightarrow> TaskAggregate" where
  "newTaskAggregate idopt fresh c u =
     \<lparr> taskId = (case idopt of None \<Rightarrow> fresh | Some i \<Rightarrow> if i = [] then fresh else i),
       version = 0,
       uncommittedEvents = [],
       title = [],
       description = None,
       priority = MEDIUM,
       status = PENDING,
       createdAt = c,
       updatedAt = u,
       completedAt = None,
       cancelledAt = None \<rparr>"

definition getUncommittedEvents :: "TaskAggregate \<Rightarrow> DomainEvent list" where
  "getUncommittedEvents t = uncommittedEvents t"

definition markEventsAsCommitted :: "TaskAggregate \<Rightarrow> TaskAggregate" where
  "markEventsAsCommitted t = t\<lparr>uncommittedEvents := []\<rparr>"

definition applyTaskCreatedEvent ::
  "jsstring \<Rightarrow> jsstring option \<Rightarrow> TaskPriority \<Rightarrow> Date \<Rightarrow> TaskAggregate \<Rightarrow> TaskAggregate" where
  "applyTaskCreatedEvent ti d p ts t =
     t\<lparr>title := ti, description := d, priority := p, status := PENDING,
       createdAt := ts, updatedAt := ts\<rparr>"

definition applyTaskCompletedEvent :: "Date \<Rightarrow> TaskAggregate \<Rightarrow> TaskAggregate" where
  "applyTaskCompletedEvent ts t =
     t\<lparr>status := COMPLETED, completedAt := Some ts, updatedAt := ts\<rparr>"

definition applyTaskCancelledEvent :: "Date \<Rightarrow> TaskAggregate \<Rightarrow> TaskAggregate" where
  "applyTaskCancelledEvent ts t =
     t\<lparr>status := CANCELLED, cancelledAt := Some ts, updatedAt := ts\<rparr>"

definition applyTaskUpdatedEvent ::
  "jsstring option \<Rightarrow> jsstring option \<Rightarrow> TaskPriority option \<Rightarrow> Date \<Rightarrow>
   TaskAggregate \<Rightarrow> TaskAggregate" where
  "applyTaskUpdatedEvent ti d p ts t =
     (let t1 = (case ti of None \<Rightarrow> t | Some x \<Rightarrow> t\<lparr>title := x\<rparr>);
          t2 = (case d of None \<Rightarrow> t1 | Some x \<Rightarrow> t1\<lparr>description := Some x\<rparr>);
          t3 = (case p of None \<Rightarrow> t2 | Some x \<Rightarrow> t2\<lparr>priority := x\<rparr>)
      in t3\<lparr>updatedAt := ts\<rparr>)"

text \<open>
  A method that returns nothing is a function to a pair: the error it throws, if any, and
  the object as the call leaves it.
\<close>

definition applyEvent :: "DomainEvent \<Rightarrow> TaskAggregate \<Rightarrow> AppError option \<times> TaskAggregate" where
  "applyEvent event t =
     (case body event of
        TaskCreated ti d p c \<Rightarrow> (None, applyTaskCreatedEvent ti d p (timestamp event) t)
      | TaskCompleted c n \<Rightarrow> (None, applyTaskCompletedEvent (timestamp event) t)
      | TaskCancelled r c \<Rightarrow> (None, applyTaskCancelledEvent (timestamp event) t)
      | TaskUpdated ti d p u \<Rightarrow> (None, applyTaskUpdatedEvent ti d p (timestamp event) t)
      | OtherEvent ty \<Rightarrow> (Some (Error (''Unknown event type: '' @ ty)), t))"

definition raiseEvent :: "DomainEvent \<Rightarrow> TaskAggregate \<Rightarrow> AppError option \<times> TaskAggregate" where
  "raiseEvent event t = applyEvent event (t\<lparr>uncommittedEvents := uncommittedEvents t @ [event]\<rparr>)"

text \<open>\<open>forEach\<close> stops at the first event whose application throws.\<close>

fun loadFromHistory :: "DomainEvent list \<Rightarrow> TaskAggregate \<Rightarrow> AppError option \<times> TaskAggregate" where
  "loadFromHistory [] t = (None, t)"
| "loadFromHistory (event # events) t =
     (case applyEvent event t of
        (Some err, t') \<Rightarrow> (Some err, t')
      | (None, t') \<Rightarrow> loadFromHistory events (t'\<lparr>version := version t' + 1\<rparr>))"

text \<open>
  \<open>TaskAggregate.createNew(title, description, priority, createdBy)\<close>; \<open>tid\<close>, \<open>c\<close>
  and \<open>u\<close> are consumed by the constructor, \<open>eid\<close> is the event's \<open>uuidv4()\<close> and
  \<open>now\<close> its \<open>new Date()\<close>. An omitted priority takes the default of the parameter.
\<close>

definition createNew ::
  "jsstring \<Rightarrow> jsstring option \<Rightarrow> TaskPriority option \<Rightarrow> jsstring option \<Rightarrow>
   uuid \<Rightarrow> Date \<Rightarrow> Date \<Rightarrow> uuid \<Rightarrow> Date \<Rightarrow> AppError + TaskAggregate" where
  "createNew ti d popt createdBy tid c u eid now =
     (let p = (case popt of None \<Rightarrow> MEDIUM | Some x \<Rightarrow> x) in
      if ti = [] \<or> length (trim ti) = 0 then
        Inl (ValidationError ''Task title is required'' ''title'')
      else if length ti > 255 then
        Inl (ValidationError ''Task title must be less than 255 characters'' ''title'')
      else if (case d of None \<Rightarrow> False | Some x \<Rightarrow> x \<noteq> [] \<and> length x > 1000) then
        Inl (ValidationError ''Task description must be less than 1000 characters'' ''description'')
      else
        let task = newTaskAggregate None tid c u;
            event = \<lparr> eventId = eid,
                      aggregateId = taskId task,
                      body = TaskCreated (trim ti) (map_option trim d) p createdBy,
                      eventVersion = 1,
                      timestamp = now,
                      metadata = Some \<lparr>source = ''TaskAggregate.createNew'', isoTimestamp = now\<rparr> \<rparr>
        in (case raiseEvent event task of
              (Some err, task') \<Rightarrow> Inl err
            | (None, task') \<Rightarrow> Inr task'))"

definition complete ::
  "jsstring option \<Rightarrow> jsstring option \<Rightarrow> uuid \<Rightarrow> Date \<Rightarrow> TaskAggregate \<Rightarrow>
   AppError option \<times> TaskAggregate" where
  "complete completedBy completionNote eid now t =
     (if status t \<noteq> PENDING then
        (Some (ValidationError (''Cannot complete task in '' @ statusValue (status t) @ '' status'')
                 ''status''), t)
      else
        raiseEvent \<lparr> eventId = eid,
                     aggregateId = taskId t,
                     body = TaskCompleted completedBy completionNote,
                     eventVersion = version t + 1,
                     timestamp = now,
                     metadata = Some \<lparr>source = ''TaskAggregate.complete'', isoTimestamp = now\<rparr> \<rparr> t)"

definition cancel ::
  "jsstring option \<Rightarrow> jsstring option \<Rightarrow> uuid \<Rightarrow> Date \<Rightarrow> TaskAggregate \<Rightarrow>
   AppError option \<times> TaskAggregate" where
  "cancel reason cancelledBy eid now t =
     (if status t = COMPLETED then
        (Some (ValidationError ''Cannot cancel completed task'' ''status''), t)
      else if status t = CANCELLED then
        (Some (ValidationError ''Task is already cancelled'' ''status''), t)
      else
        raiseEvent \<lparr> eventId = eid,
                     aggregateId = taskId t,
                     body = TaskCancelled reason cancelledBy,
                     eventVersion = version t + 1,
                     timestamp = now,
                     metadata = Some \<lparr>source = ''TaskAggregate.cancel'', isoTimestamp = now\<rparr> \<rparr> t)"

record TaskUpdates =
  newTitle :: "jsstring option"
  newDescription :: "jsstring option"
  newPriority :: "TaskPriority option"

definition hasChanges :: "TaskUpdates \<Rightarrow> TaskAggregate \<Rightarrow> bool" where
  "hasChanges updates t =
     ((case newTitle updates of None \<Rightarrow> False | Some x \<Rightarrow> trim x \<noteq> title t)
      \<or> (case newDescription updates of None \<Rightarrow> False | Some x \<Rightarrow> Some (trim x) \<noteq> description t)
      \<or> (case newPriority updates of None \<Rightarrow> False | Some x \<Rightarrow> x \<noteq> priority t))"

definition update ::
  "TaskUpdates \<Rightarrow> jsstring option \<Rightarrow> uuid \<Rightarrow> Date \<Rightarrow> TaskAggregate \<Rightarrow>
   AppError option \<times> TaskAggregate" where
  "update updates updatedBy eid now t =
     (if status t \<noteq> PENDING then
        (Some (ValidationError (''Cannot update task in '' @ statusValue (status t) @ '' status'')
                 ''status''), t)
      else if (case newTitle updates of None \<Rightarrow> False
               | Some x \<Rightarrow> x = [] \<or> length (trim x) = 0) then
        (Some (ValidationError ''Task title is required'' ''title''), t)
      else if (case newTitle updates of None \<Rightarrow> False | Some x \<Rightarrow> length x > 255) then
        (Some (ValidationError ''Task title must be less than 255 characters'' ''title''), t)
      else if (case newDescription updates of None \<Rightarrow> False | Some x \<Rightarrow> length x > 1000) then
        (Some (ValidationError ''Task description must be less than 1000 characters''
                 ''description''), t)
      else if \<not> hasChanges updates t then
        (None, t)
      else
        raiseEvent \<lparr> eventId = eid,
                     aggregateId = taskId t,
                     body = TaskUpdated (map_option trim (newTitle updates))
                              (map_option trim (newDescription updates))
                              (newPriority updates) updatedBy,
                     eventVersion = version t + 1,
                     timestamp = now,
                     metadata = Some \<lparr>source = ''TaskAggregate.update'', isoTimestamp = now\<rparr> \<rparr> t)"

section \<open>The event store (PostgreSQLEventStore over the table event_store)\<close>

text \<open>
  The table \<open>event_store\<close> is the list of its rows in insertion order (ascending SERIAL
  \<open>id\<close>). A row holds the columns \<open>event_id\<close>, \<open>aggregate_id\<close>, \<open>event_type\<close> with
  \<open>payload\<close>, \<open>version\<close>, \<open>timestamp\<close> and \<open>metadata\<close>, that is a \<open>DomainEvent\<close>
  whose \<open>eventVersion\<close> is the column \<open>version\<close>; the mapping of rows back to events in
  \<open>getEvents\<close> is then the identity. The database is taken to be reachable and the JSONB
  columns to store every payload as it is; a transaction is a computation on a copy of the
  table that replaces the table at COMMIT and is dropped at ROLLBACK.
\<close>

type_synonym EventTable = "DomainEvent list"

text \<open>\<open>SELECT COALESCE(MAX(version), 0) FROM event_store WHERE aggregate_id = $1\<close>\<close>

definition getCurrentVersion :: "EventTable \<Rightarrow> uuid \<Rightarrow> int" where
  "getCurrentVersion table aid =
     (case map eventVersion (filter (\<lambda>row. aggregateId row = aid) table) of
        [] \<Rightarrow> 0
      | v # vs \<Rightarrow> fold max vs v)"

text \<open>
  The INSERT of \<open>insertEvent\<close>: the row takes the identifiers, type, payload, metadata
  and timestamp of the event and the version passed by the caller. It fails when the
  table's \<open>event_id UUID UNIQUE\<close> or \<open>UNIQUE(aggregate_id, version)\<close> would be violated.
\<close>

definition insertEvent :: "EventTable \<Rightarrow> DomainEvent \<Rightarrow> int \<Rightarrow> AppError + EventTable" where
  "insertEvent table event v =
     (if list_ex (\<lambda>row. eventId row = eventId event) table then
        Inl (UniqueViolation ''event_store_event_id_key'')
      else if list_ex (\<lambda>row. aggregateId row = aggregateId event \<and> eventVersion row = v) table then
        Inl (UniqueViolation ''event_store_aggregate_id_version_key'')
      else Inr (table @ [event\<lparr>eventVersion := v\<rparr>]))"

text \<open>
  The loop \<open>for (let i = 0; i < events.length; i++)\<close> of \<open>saveEvents\<close>, from index
  \<open>i\<close> on, over the events that remain.
\<close>

fun insertEvents :: "DomainEvent list \<Rightarrow> int \<Rightarrow> nat \<Rightarrow> EventTable \<Rightarrow> AppError + EventTable" where
  "insertEvents [] expectedVersion i table = Inr table"
| "insertEvents (event # events) expectedVersion i table =
     (let newVersion = expectedVersion + int i + 1 in
      case insertEvent table event newVersion of
        Inl err \<Rightarrow> Inl err
      | Inr table' \<Rightarrow> insertEvents events expectedVersion (i + 1) table')"

definition saveEvents ::
  "EventTable \<Rightarrow> uuid \<Rightarrow> DomainEvent list \<Rightarrow> int \<Rightarrow> AppError option \<times> EventTable" where
  "saveEvents table aid events expectedVersion =
     (if length events = 0 then (None, table)
      else
        let currentVersion = getCurrentVersion table aid in
        if currentVersion \<noteq> expectedVersion then
          (Some (ConflictError expectedVersion currentVersion aid), table)
        else
          (case insertEvents events expectedVersion 0 table of
             Inl err \<Rightarrow> (Some err, table)
           | Inr table' \<Rightarrow> (None, table')))"

text \<open>\<open>SELECT .. WHERE aggregate_id = $1 AND version > $2 ORDER BY version ASC\<close>\<close>

definition getEvents :: "EventTable \<Rightarrow> uuid \<Rightarrow> int \<Rightarrow> DomainEvent list" where
  "getEvents table aid fromVersion =
     sort_key eventVersion
       (filter (\<lambda>row. aggregateId row = aid \<and> eventVersion row > fromVersion) table)"

definition aggregateExists :: "EventTable \<Rightarrow> uuid \<Rightarrow> bool" where
  "aggregateExists table aid = list_ex (\<lambda>row. aggregateId row = aid) table"

section \<open>The repository (EventSourcedTaskRepository)\<close>

definition save :: "TaskAggregate \<Rightarrow> EventTable \<Rightarrow> AppError option \<times> TaskAggregate \<times> EventTable" where
  "save task table =
     (let uncommitted = getUncommittedEvents task in
      if length uncommitted = 0 then (None, task, table)
      else
        (case saveEvents table (taskId task) uncommitted
                (version task - int (length uncommitted)) of
           (Some err, table') \<Rightarrow> (Some err, task, table')
         | (None, table') \<Rightarrow> (None, markEventsAsCommitted task, table')))"

text \<open>\<open>getById(id)\<close>; \<open>fresh\<close>, \<open>c\<close> and \<open>u\<close> are consumed by the constructor.\<close>

definition getById :: "EventTable \<Rightarrow> uuid \<Rightarrow> uuid \<Rightarrow> Date \<Rightarrow> Date \<Rightarrow> AppError + TaskAggregate" where
  "getById table tid fresh c u =
     (let events = getEvents table tid 0 in
      if length events = 0 then Inl (NotFoundError ''Task'' tid)
      else
        let task = newTaskAggregate (Some tid) fresh c u in
        (case loadFromHistory events task of
           (Some err, task') \<Rightarrow> Inl err
         | (None, task') \<Rightarrow> Inr task'))"

definition exists_task :: "EventTable \<Rightarrow> uuid \<Rightarrow> bool" where
  "exists_task table tid = aggregateExists table tid"

section \<open>The event bus (InMemoryEventBus)\<close>

text \<open>
  A handler is an object with a predicate on event type names and a \<open>handle\<close> whose
  effect is a change of the handlers' world \<open>'w\<close>, ending normally or by throwing. The
  handlers of one event are started in the order of their registration; the model runs
  each to its end before the next, and \<open>handle\<close> is taken to settle. A delivery is the
  position of the handler in \<open>this.handlers\<close>, the event, and what \<open>handle\<close> threw (the
  error that the bus logs).
\<close>

record 'w EventHandler =
  canHandle :: "string \<Rightarrow> bool"
  handle :: "DomainEvent \<Rightarrow> 'w \<Rightarrow> AppError option \<times> 'w"

type_synonym Delivery = "nat \<times> DomainEvent \<times> AppError option"

definition subscribe :: "'w EventHandler \<Rightarrow> 'w EventHandler list \<Rightarrow> 'w EventHandler list" where
  "subscribe handler handlers = handlers @ [handler]"

text \<open>The body of \<open>applicableHandlers.map(async handler => ..)\<close>: try, catch, log, go on.\<close>

fun runHandlers ::
  "(nat \<times> 'w EventHandler) list \<Rightarrow> DomainEvent \<Rightarrow> 'w \<Rightarrow> Delivery list \<times> 'w" where
  "runHandlers [] event w = ([], w)"
| "runHandlers ((i, handler) # rest) event w =
     (case handle handler event w of
        (thrown, w1) \<Rightarrow>
          (case runHandlers rest event w1 of
             (deliveries, w2) \<Rightarrow> ((i, event, thrown) # deliveries, w2)))"

definition processEvent ::
  "'w EventHandler list \<Rightarrow> DomainEvent \<Rightarrow> 'w \<Rightarrow> AppError option \<times> Delivery list \<times> 'w" where
  "processEvent handlers event w =
     (let applicableHandlers =
            filter (\<lambda>(i, handler). canHandle handler (eventType event)) (enumerate 0 handlers) in
      if length applicableHandlers = 0 then (None, [], w)
      else
        (case runHandlers applicableHandlers event w of
           (deliveries, w') \<Rightarrow> (None, deliveries, w')))"

text \<open>The loop \<open>for (const event of events) await this.processEvent(event)\<close>.\<close>

fun publishEach ::
  "'w EventHandler list \<Rightarrow> DomainEvent list \<Rightarrow> 'w \<Rightarrow> AppError option \<times> Delivery list \<times> 'w" where
  "publishEach handlers [] w = (None, [], w)"
| "publishEach handlers (event # events) w =
     (case processEvent handlers event w of
        (Some err, deliveries, w1) \<Rightarrow> (Some err, deliveries, w1)
      | (None, deliveries, w1) \<Rightarrow>
          (case publishEach handlers events w1 of
             (result, deliveries', w2) \<Rightarrow> (result, deliveries @ deliveries', w2)))"

definition publish ::
  "'w EventHandler list \<Rightarrow> DomainEvent list \<Rightarrow> 'w \<Rightarrow> AppError option \<times> Delivery list \<times> 'w" where
  "publish handlers events w =
     (if length events = 0 then (None, [], w) else publishEach handlers events w)"

section \<open>The application service (TaskService)\<close>

text \<open>
  \<open>createTask(data)\<close> returns the new task's identifier or throws; with it come the
  table, the deliveries and the handlers' world as the call leaves them.
\<close>

definition createTask ::
  "jsstring \<Rightarrow> jsstring option \<Rightarrow> TaskPriority option \<Rightarrow> jsstring option \<Rightarrow>
   uuid \<Rightarrow> Date \<Rightarrow> Date \<Rightarrow> uuid \<Rightarrow> Date \<Rightarrow>
   EventTable \<Rightarrow> 'w EventHandler list \<Rightarrow> 'w \<Rightarrow>
   (AppError + uuid) \<times> EventTable \<times> Delivery list \<times> 'w" where
  "createTask ti d popt createdBy tid c u eid now table handlers w =
     (case createNew ti d (Some (case popt of None \<Rightarrow> MEDIUM | Some p \<Rightarrow> p)) createdBy
             tid c u eid now of
        Inl err \<Rightarrow> (Inl err, table, [], w)
      | Inr task \<Rightarrow>
          let uncommitted = getUncommittedEvents task in
          (case save task table of
             (Some err, task', table') \<Rightarrow> (Inl err, table', [], w)
           | (None, task', table') \<Rightarrow>
               (case publish handlers uncommitted w of
                  (Some err, deliveries, w') \<Rightarrow> (Inl err, table', deliveries, w')
                | (None, deliveries, w') \<Rightarrow> (Inr (taskId task'), table', deliveries, w'))))"

section \<open>Stored histories\<close>

text \<open>
  The sequence numbers stored for one entity, in insertion order, and the property that
  they are \<open>1, 2, .., N\<close>.
\<close>

definition versionsOf :: "EventTable \<Rightarrow> uuid \<Rightarrow> int list" where
  "versionsOf table aid = map eventVersion (filter (\<lambda>row. aggregateId row = aid) table)"

definition contiguous :: "EventTable \<Rightarrow> uuid \<Rightarrow> bool" where
  "contiguous table aid = (versionsOf table aid = [1..int (length (versionsOf table aid))])"

section \<open>Auxiliary facts\<close>

lemma trim_Nil: "trim [] = []"
  by (simp add: trim_def)

lemma trim_padded: "trim (0x41 # replicate 255 0x20) = [0x41]"
proof -
  have ws: "isWhiteSpace 0x20" and nws: "\<not> isWhiteSpace 0x41"
    by (simp_all add: isWhiteSpace_def)
  have "dropWhile isWhiteSpace (replicate 255 0x20 @ [0x41]) = dropWhile isWhiteSpace [0x41]"
    by (rule dropWhile_append2) (simp add: ws)
  then show ?thesis using nws by (simp add: trim_def)
qed

lemma insertEvent_not_conflict: "insertEvent table event v \<noteq> Inl (ConflictError e a i)"
  by (simp add: insertEvent_def)

lemma insertEvents_not_conflict: "insertEvents events ev k table \<noteq> Inl (ConflictError e a i)"
  by (induction events ev k table rule: insertEvents.induct)
     (auto simp: insertEvent_not_conflict split: sum.splits)

lemma saveEvents_error_table:
  "saveEvents table aid events ev = (Some err, table') \<Longrightarrow> table' = table"
  by (auto simp: saveEvents_def Let_def split: if_splits sum.splits)

text \<open>No event handler of the aggregate touches the version: only replay counts.\<close>

lemma applyEvent_version: "version (snd (applyEvent event t)) = version t"
  by (simp add: applyEvent_def applyTaskCreatedEvent_def applyTaskCompletedEvent_def
        applyTaskCancelledEvent_def applyTaskUpdatedEvent_def Let_def
      split: EventBody.splits option.splits)

lemma raiseEvent_version: "version (snd (raiseEvent event t)) = version t"
  by (simp add: raiseEvent_def applyEvent_version)

lemma loadFromHistory_version:
  "loadFromHistory events t = (None, t') \<Longrightarrow> version t' = version t + int (length events)"
proof (induction events arbitrary: t)
  case Nil
  then show ?case by simp
next
  case (Cons event events)
  obtain r t1 where a: "applyEvent event t = (r, t1)"
    by (cases "applyEvent event t")
  with Cons.prems have r: "r = None"
    by (cases r) auto
  from a have "version t1 = version t"
    using applyEvent_version [of event t] by simp
  moreover from Cons.prems a r have "loadFromHistory events (t1\<lparr>version := version t1 + 1\<rparr>) = (None, t')"
    by simp
  ultimately show ?case
    using Cons.IH [of "t1\<lparr>version := version t1 + 1\<rparr>"] by simp
qed





lemma insertEvents_append:
  "insertEvents events ev k table = Inr table' \<Longrightarrow>
   table' = table @ map (\<lambda>(i, event). event\<lparr>eventVersion := ev + int i + 1\<rparr>) (enumerate k events)"
proof (induction events arbitrary: k table)
  case Nil
  then show ?case by simp
next
  case (Cons event events)
  from Cons.prems obtain t1 where
    i: "insertEvent table event (ev + int k + 1) = Inr t1"
    and r: "insertEvents events ev (Suc k) t1 = Inr table'"
    by (auto simp: Let_def split: sum.splits)
  from i have "t1 = table @ [event\<lparr>eventVersion := ev + int k + 1\<rparr>]"
    by (auto simp: insertEvent_def split: if_splits)
  with Cons.IH [OF r] show ?case by simp
qed

lemma insertEvents_distinct:
  "insertEvents events ev k table = Inr table' \<Longrightarrow>
   distinct (map (\<lambda>row. (aggregateId row, eventVersion row)) table) \<Longrightarrow>
   distinct (map (\<lambda>row. (aggregateId row, eventVersion row)) table')"
proof (induction events arbitrary: k table)
  case Nil
  then show ?case by simp
next
  case (Cons event events)
  from Cons.prems(1) obtain t1 where
    i: "insertEvent table event (ev + int k + 1) = Inr t1"
    and r: "insertEvents events ev (Suc k) t1 = Inr table'"
    by (auto simp: Let_def split: sum.splits)
  from i Cons.prems(2) have "distinct (map (\<lambda>row. (aggregateId row, eventVersion row)) t1)"
    by (fastforce simp: insertEvent_def list_ex_iff split: if_splits)
  with Cons.IH [OF r] show ?case by simp
qed

lemma upto_extend:
  "[1..int n] @ map (\<lambda>i. int n + int i + 1) [0..<k] = [1..int (n + k)]"
proof (induction k)
  case 0
  then show ?case by simp
next
  case (Suc k)
  have "[1..int (n + Suc k)] = [1..int (n + k)] @ [int (n + Suc k)]"
    using upto_rec2 [of 1 "int (n + Suc k)"] by simp
  with Suc show ?case by simp
qed

text \<open>
  The version query computes the highest sequence number stored for the entity, and 0
  when the entity has no rows.
\<close>

lemma versionsOf_set:
  "set (versionsOf table aid) = eventVersion ` {row \<in> set table. aggregateId row = aid}"
  by (auto simp: versionsOf_def)

lemma getCurrentVersion_stored:
  "getCurrentVersion table aid =
     (if versionsOf table aid = [] then 0 else Max (set (versionsOf table aid)))"
proof (cases "versionsOf table aid")
  case Nil
  then show ?thesis by (simp add: getCurrentVersion_def versionsOf_def)
next
  case (Cons v vs)
  then have "getCurrentVersion table aid = fold max vs v"
    by (simp add: getCurrentVersion_def versionsOf_def)
  also have "\<dots> = Max (set (v # vs))"
    by (metis Max.set_eq_fold)
  finally show ?thesis using Cons by simp
qed

lemma contiguous_current:
  assumes "contiguous table aid"
  shows "getCurrentVersion table aid = int (length (versionsOf table aid))"
proof (cases "versionsOf table aid")
  case Nil
  then show ?thesis by (simp add: getCurrentVersion_def versionsOf_def)
next
  case (Cons v vs)
  let ?n = "length (versionsOf table aid)"
  have "getCurrentVersion table aid = fold max vs v"
    using Cons by (simp add: getCurrentVersion_def versionsOf_def)
  also have "\<dots> = Max (set (versionsOf table aid))"
    using Cons by (metis Max.set_eq_fold)
  also have "set (versionsOf table aid) = {1..int ?n}"
    using assms unfolding contiguous_def by (metis set_upto)
  also have "Max {1..int ?n} = int ?n"
    using Cons by (intro Max_eqI) auto
  finally show ?thesis .
qed

lemma versionsOf_batch:
  assumes "\<forall>event \<in> set events. aggregateId event = aid"
  shows "versionsOf (map (\<lambda>(i, event). event\<lparr>eventVersion := ev + int i + 1\<rparr>) (enumerate k events)) a
     = (if a = aid then map (\<lambda>(i, event). ev + int i + 1) (enumerate k events) else [])"
  using assms
  by (induction events arbitrary: k) (auto simp: versionsOf_def)

lemma map_index_enumerate:
  "map (\<lambda>(i, x). f i) (enumerate k xs) = map f [k..<k + length xs]"
proof -
  have "map (\<lambda>(i, x). f i) (enumerate k xs) = map f (map fst (enumerate k xs))"
    unfolding map_map by (rule map_cong) auto
  then show ?thesis by simp
qed

lemma versionsOf_append: "versionsOf (t1 @ t2) a = versionsOf t1 a @ versionsOf t2 a"
  by (simp add: versionsOf_def)

section \<open>Creation, saving and loading\<close>

text \<open>
  C1. Claimed: for every valid creation input, creating a task and loading it by the
  returned identifier succeeds, with version 1 and the fields just created, and the save
  made during creation does not fail. In the code \<open>raiseEvent\<close> leaves the version at
  0, so \<open>save\<close> expects version \<open>0 - 1\<close> of a table whose current version is 0: for the
  title "A" on an empty table \<open>createTask\<close> throws the concurrency conflict, nothing is
  stored, and loading the identifier finds no task.
\<close>

theorem createTask_conflict:
  "createTask [0x41] None None None ''t1'' 5 6 ''e1'' 7 [] ([] :: unit EventHandler list) ()
     = (Inl (ConflictError (- 1) 0 ''t1''), [], [], ())
   \<and> getById [] ''t1'' ''t2'' 8 9 = Inl (NotFoundError ''Task'' ''t1'')"
  by (simp add: createTask_def createNew_def trim_def isWhiteSpace_def newTaskAggregate_def
        raiseEvent_def applyEvent_def applyTaskCreatedEvent_def getUncommittedEvents_def
        save_def saveEvents_def getCurrentVersion_def getById_def getEvents_def Let_def)

text \<open>
  The same holds of every input that \<open>createNew\<close> accepts and every table in which the
  new identifier has no rows.
\<close>

lemma createNew_save_conflicts:
  assumes "createNew ti d popt createdBy tid c u eid now = Inr task"
    and "getCurrentVersion table tid = 0"
  shows "save task table = (Some (ConflictError (- 1) 0 tid), task, table)"
proof -
  from assms(1) have "taskId task = tid \<and> version task = 0 \<and> length (uncommittedEvents task) = 1"
    by (auto simp: createNew_def newTaskAggregate_def raiseEvent_def applyEvent_def
          applyTaskCreatedEvent_def Let_def split: if_splits)
  with assms(2) show ?thesis
    by (auto simp: save_def saveEvents_def getUncommittedEvents_def Let_def)
qed

section \<open>The version of an aggregate\<close>

text \<open>
  C2. Claimed: the version of an aggregate always equals the number of events applied to
  it, by replay or by live mutation. Replay (\<open>loadFromHistory\<close>) adds one per event;
  \<open>raiseEvent\<close> does not. After \<open>createNew\<close> one event has been applied and the
  version is 0; after \<open>complete\<close> two have and it is still 0.
\<close>

theorem live_version_not_event_count:
  "(case createNew [0x41] None None None ''t1'' 5 6 ''e1'' 7 of
      Inl err \<Rightarrow> False
    | Inr t \<Rightarrow> version t = 0 \<and> length (uncommittedEvents t) = 1
        \<and> (case complete None None ''e2'' 8 t of
             (thrown, t') \<Rightarrow> thrown = None \<and> version t' = 0 \<and> length (uncommittedEvents t') = 2))"
  by (simp add: createNew_def trim_def isWhiteSpace_def newTaskAggregate_def
        raiseEvent_def applyEvent_def applyTaskCreatedEvent_def complete_def
        applyTaskCompletedEvent_def Let_def)

section \<open>Replay against live mutation\<close>

text \<open>
  C3. Claimed: folding the events produced by live mutation into a fresh aggregate of the
  same identifier gives the same state, domain fields and version, as the live aggregate.
  For the aggregate made by \<open>createNew\<close> with title "A" the replay agrees on every
  domain field but has version 1 where the live aggregate has version 0.
\<close>

theorem replay_differs_from_live:
  "(case createNew [0x41] None None None ''t1'' 5 6 ''e1'' 7 of
      Inl err \<Rightarrow> False
    | Inr live \<Rightarrow>
        (case loadFromHistory (uncommittedEvents live)
                (newTaskAggregate (Some (taskId live)) ''t2'' 8 9) of
           (thrown, replayed) \<Rightarrow>
             thrown = None \<and> version live = 0 \<and> version replayed = 1
             \<and> replayed\<lparr>version := 0, uncommittedEvents := uncommittedEvents live\<rparr> = live))"
  by (simp add: createNew_def trim_def isWhiteSpace_def newTaskAggregate_def
        raiseEvent_def applyEvent_def applyTaskCreatedEvent_def Let_def)

text \<open>
  What replay does reproduce. The replay of the event of \<open>createNew\<close> gives the live
  aggregate with version 1 and an empty buffer; and when the replay of the buffer agrees
  with an aggregate in all but version and buffer, it still does after \<open>raiseEvent\<close>,
  the only way \<open>complete\<close>, \<open>cancel\<close> and \<open>update\<close> change the aggregate.
\<close>

lemma createNew_replay:
  assumes "createNew ti d popt createdBy tid c u eid now = Inr live" and "tid \<noteq> []"
  shows "version live = 0"
    and "loadFromHistory (uncommittedEvents live) (newTaskAggregate (Some (taskId live)) fresh c' u')
           = (None, live\<lparr>version := 1, uncommittedEvents := []\<rparr>)"
  using assms
  by (auto simp: createNew_def newTaskAggregate_def raiseEvent_def applyEvent_def
        applyTaskCreatedEvent_def Let_def split: if_splits)

lemma loadFromHistory_snoc:
  "loadFromHistory (events @ [event]) t =
     (case loadFromHistory events t of
        (Some err, r) \<Rightarrow> (Some err, r)
      | (None, r) \<Rightarrow>
          (case applyEvent event r of
             (Some err, r') \<Rightarrow> (Some err, r')
           | (None, r') \<Rightarrow> (None, r'\<lparr>version := version r' + 1\<rparr>)))"
  by (induction events arbitrary: t) (auto split: prod.splits option.splits)

lemma applyEvent_frame:
  "applyEvent event (t\<lparr>version := v, uncommittedEvents := b\<rparr>)
     = (fst (applyEvent event t), (snd (applyEvent event t))\<lparr>version := v, uncommittedEvents := b\<rparr>)"
  by (cases "body event")
     (simp_all add: applyEvent_def applyTaskCreatedEvent_def applyTaskCompletedEvent_def
        applyTaskCancelledEvent_def applyTaskUpdatedEvent_def Let_def split: option.splits)

lemma raiseEvent_keeps_replay:
  assumes "loadFromHistory (uncommittedEvents t) t0 = (None, r)"
    and "r\<lparr>version := version t, uncommittedEvents := uncommittedEvents t\<rparr> = t"
    and "raiseEvent event t = (None, t')"
  shows "\<exists>r'. loadFromHistory (uncommittedEvents t') t0 = (None, r')
            \<and> r'\<lparr>version := version t', uncommittedEvents := uncommittedEvents t'\<rparr> = t'"
proof -
  let ?b = "uncommittedEvents t @ [event]"
  from assms(2) have t: "t\<lparr>uncommittedEvents := ?b\<rparr> = r\<lparr>version := version t, uncommittedEvents := ?b\<rparr>"
    by (cases t, cases r) auto
  from assms(3) have a: "applyEvent event (r\<lparr>version := version t, uncommittedEvents := ?b\<rparr>) = (None, t')"
    by (simp add: raiseEvent_def t)
  obtain x r1 where ar: "applyEvent event r = (x, r1)"
    by (cases "applyEvent event r")
  with a have x: "x = None" and t': "t' = r1\<lparr>version := version t, uncommittedEvents := ?b\<rparr>"
    by (simp_all add: applyEvent_frame)
  have b': "uncommittedEvents t' = ?b"
    using assms(3) by (simp add: t')
  have "loadFromHistory ?b t0 = (None, r1\<lparr>version := version r1 + 1\<rparr>)"
    using assms(1) ar x by (simp add: loadFromHistory_snoc)
  moreover have "(r1\<lparr>version := version r1 + 1\<rparr>)\<lparr>version := version t', uncommittedEvents := ?b\<rparr> = t'"
    by (simp add: t')
  ultimately show ?thesis using b' by simp
qed

section \<open>Appending to the event store\<close>

text \<open>
  C4. Let the stored current version of an entity be the highest sequence number among
  its rows in the table, and 0 when it has none. \<open>saveEvents\<close> signals a concurrency
  conflict exactly when the batch is not empty and the stored current version differs
  from the expected version; an empty batch returns normally and leaves the table as it
  is; a signalled conflict carries the expected and the stored current version, and the
  table is unchanged by the call.
\<close>

theorem saveEvents_conflict:
  assumes "stored = (if versionsOf table aid = [] then 0 else Max (set (versionsOf table aid)))"
  shows "((\<exists>e a i. fst (saveEvents table aid events expectedVersion) = Some (ConflictError e a i))
      = (events \<noteq> [] \<and> stored \<noteq> expectedVersion))
   \<and> (events = [] \<longrightarrow> saveEvents table aid events expectedVersion = (None, table))
   \<and> (events \<noteq> [] \<and> stored \<noteq> expectedVersion \<longrightarrow>
        saveEvents table aid events expectedVersion =
          (Some (ConflictError expectedVersion stored aid), table))"
proof -
  have "getCurrentVersion table aid = stored"
    using assms by (simp only: getCurrentVersion_stored)
  then show ?thesis
    by (auto simp: saveEvents_def Let_def insertEvents_not_conflict split: sum.splits)
qed

theorem saveEvents_conflict_witness:
  "saveEvents
     [\<lparr> eventId = ''e1'', aggregateId = ''a'', body = TaskCreated [0x41] None MEDIUM None,
        eventVersion = 1, timestamp = 7, metadata = None \<rparr>,
      \<lparr> eventId = ''e2'', aggregateId = ''b'', body = TaskCreated [0x42] None LOW None,
        eventVersion = 1, timestamp = 8, metadata = None \<rparr>,
      \<lparr> eventId = ''e3'', aggregateId = ''a'', body = TaskUpdated None None (Some HIGH) None,
        eventVersion = 2, timestamp = 9, metadata = None \<rparr>]
     ''a''
     [\<lparr> eventId = ''e4'', aggregateId = ''a'', body = TaskCompleted None None,
        eventVersion = 2, timestamp = 10, metadata = None \<rparr>] 1
   = (Some (ConflictError 1 2 ''a''),
     [\<lparr> eventId = ''e1'', aggregateId = ''a'', body = TaskCreated [0x41] None MEDIUM None,
        eventVersion = 1, timestamp = 7, metadata = None \<rparr>,
      \<lparr> eventId = ''e2'', aggregateId = ''b'', body = TaskCreated [0x42] None LOW None,
        eventVersion = 1, timestamp = 8, metadata = None \<rparr>,
      \<lparr> eventId = ''e3'', aggregateId = ''a'', body = TaskUpdated None None (Some HIGH) None,
        eventVersion = 2, timestamp = 9, metadata = None \<rparr>])
   \<and> saveEvents
     [\<lparr> eventId = ''e1'', aggregateId = ''a'', body = TaskCreated [0x41] None MEDIUM None,
        eventVersion = 1, timestamp = 7, metadata = None \<rparr>,
      \<lparr> eventId = ''e2'', aggregateId = ''b'', body = TaskCreated [0x42] None LOW None,
        eventVersion = 1, timestamp = 8, metadata = None \<rparr>,
      \<lparr> eventId = ''e3'', aggregateId = ''a'', body = TaskUpdated None None (Some HIGH) None,
        eventVersion = 2, timestamp = 9, metadata = None \<rparr>]
     ''a''
     [\<lparr> eventId = ''e4'', aggregateId = ''a'', body = TaskCompleted None None,
        eventVersion = 2, timestamp = 10, metadata = None \<rparr>] 2
   = (None,
     [\<lparr> eventId = ''e1'', aggregateId = ''a'', body = TaskCreated [0x41] None MEDIUM None,
        eventVersion = 1, timestamp = 7, metadata = None \<rparr>,
      \<lparr> eventId = ''e2'', aggregateId = ''b'', body = TaskCreated [0x42] None LOW None,
        eventVersion = 1, timestamp = 8, metadata = None \<rparr>,
      \<lparr> eventId = ''e3'', aggregateId = ''a'', body = TaskUpdated None None (Some HIGH) None,
        eventVersion = 2, timestamp = 9, metadata = None \<rparr>,
      \<lparr> eventId = ''e4'', aggregateId = ''a'', body = TaskCompleted None None,
        eventVersion = 3, timestamp = 10, metadata = None \<rparr>])
   \<and> saveEvents
     [\<lparr> eventId = ''e1'', aggregateId = ''a'', body = TaskCreated [0x41] None MEDIUM None,
        eventVersion = 1, timestamp = 7, metadata = None \<rparr>,
      \<lparr> eventId = ''e2'', aggregateId = ''b'', body = TaskCreated [0x42] None LOW None,
        eventVersion = 1, timestamp = 8, metadata = None \<rparr>,
      \<lparr> eventId = ''e3'', aggregateId = ''a'', body = TaskUpdated None None (Some HIGH) None,
        eventVersion = 2, timestamp = 9, metadata = None \<rparr>]
     ''a'' [] 7
   = (None,
     [\<lparr> eventId = ''e1'', aggregateId = ''a'', body = TaskCreated [0x41] None MEDIUM None,
        eventVersion = 1, timestamp = 7, metadata = None \<rparr>,
      \<lparr> eventId = ''e2'', aggregateId = ''b'', body = TaskCreated [0x42] None LOW None,
        eventVersion = 1, timestamp = 8, metadata = None \<rparr>,
      \<lparr> eventId = ''e3'', aggregateId = ''a'', body = TaskUpdated None None (Some HIGH) None,
        eventVersion = 2, timestamp = 9, metadata = None \<rparr>])"
proof -
  let ?table = "[\<lparr> eventId = ''e1'', aggregateId = ''a'', body = TaskCreated [0x41] None MEDIUM None,
        eventVersion = 1, timestamp = 7, metadata = None \<rparr>,
      \<lparr> eventId = ''e2'', aggregateId = ''b'', body = TaskCreated [0x42] None LOW None,
        eventVersion = 1, timestamp = 8, metadata = None \<rparr>,
      \<lparr> eventId = ''e3'', aggregateId = ''a'', body = TaskUpdated None None (Some HIGH) None,
        eventVersion = 2, timestamp = 9, metadata = None \<rparr>]"
  let ?batch = "[\<lparr> eventId = ''e4'', aggregateId = ''a'', body = TaskCompleted None None,
        eventVersion = 2, timestamp = 10, metadata = None \<rparr>]"
  have stored: "(2::int) = (if versionsOf ?table ''a'' = [] then 0
                            else Max (set (versionsOf ?table ''a'')))"
    by (simp add: versionsOf_def)
  from saveEvents_conflict [OF stored, of ?batch 1]
  have stale: "saveEvents ?table ''a'' ?batch 1 = (Some (ConflictError 1 2 ''a''), ?table)"
    by simp
  from saveEvents_conflict [OF stored, of ?batch 2]
  have "fst (saveEvents ?table ''a'' ?batch 2) \<noteq> Some (ConflictError 2 2 ''a'')"
    by simp
  moreover have "saveEvents ?table ''a'' ?batch 2
      = (None, ?table @ [\<lparr> eventId = ''e4'', aggregateId = ''a'', body = TaskCompleted None None,
        eventVersion = 3, timestamp = 10, metadata = None \<rparr>])"
    by (simp add: saveEvents_def getCurrentVersion_def insertEvent_def Let_def)
  ultimately have current: "saveEvents ?table ''a'' ?batch 2
      = (None, ?table @ [\<lparr> eventId = ''e4'', aggregateId = ''a'', body = TaskCompleted None None,
        eventVersion = 3, timestamp = 10, metadata = None \<rparr>])"
    by simp
  from saveEvents_conflict [OF stored, of "[]" 7]
  have empty: "saveEvents ?table ''a'' [] 7 = (None, ?table)"
    by simp
  from stale current empty show ?thesis by simp
qed

text \<open>
  C10. Claimed: in an accepted batch the event at index \<open>i\<close> is stored with sequence
  number \<open>expectedVersion + i + 1\<close>, whatever version the event carries, and so the
  stored history of each entity is numbered \<open>1..N\<close>, under the uniqueness of
  (aggregate_id, version). The first part holds of every batch. The rows are inserted
  under the \<open>aggregateId\<close> of each event, while the version check reads the
  \<open>aggregateId\<close> passed to \<open>saveEvents\<close>: a batch checked against entity "a" whose
  event belongs to entity "b" gives "b" a history that starts at 2.
\<close>

theorem saveEvents_foreign_event_gap:
  "saveEvents [] ''a''
     [\<lparr> eventId = ''e1'', aggregateId = ''a'', body = TaskCreated [0x41] None MEDIUM None,
        eventVersion = 1, timestamp = 7, metadata = None \<rparr>] 0
   = (None,
     [\<lparr> eventId = ''e1'', aggregateId = ''a'', body = TaskCreated [0x41] None MEDIUM None,
        eventVersion = 1, timestamp = 7, metadata = None \<rparr>])
   \<and> saveEvents
     [\<lparr> eventId = ''e1'', aggregateId = ''a'', body = TaskCreated [0x41] None MEDIUM None,
        eventVersion = 1, timestamp = 7, metadata = None \<rparr>]
     ''a''
     [\<lparr> eventId = ''e2'', aggregateId = ''b'', body = TaskCompleted None None,
        eventVersion = 1, timestamp = 8, metadata = None \<rparr>] 1
   = (None,
     [\<lparr> eventId = ''e1'', aggregateId = ''a'', body = TaskCreated [0x41] None MEDIUM None,
        eventVersion = 1, timestamp = 7, metadata = None \<rparr>,
      \<lparr> eventId = ''e2'', aggregateId = ''b'', body = TaskCompleted None None,
        eventVersion = 2, timestamp = 8, metadata = None \<rparr>])
   \<and> map eventVersion (getEvents
     [\<lparr> eventId = ''e1'', aggregateId = ''a'', body = TaskCreated [0x41] None MEDIUM None,
        eventVersion = 1, timestamp = 7, metadata = None \<rparr>,
      \<lparr> eventId = ''e2'', aggregateId = ''b'', body = TaskCompleted None None,
        eventVersion = 2, timestamp = 8, metadata = None \<rparr>] ''b'' 0) = [2]
   \<and> \<not> contiguous
     [\<lparr> eventId = ''e1'', aggregateId = ''a'', body = TaskCreated [0x41] None MEDIUM None,
        eventVersion = 1, timestamp = 7, metadata = None \<rparr>,
      \<lparr> eventId = ''e2'', aggregateId = ''b'', body = TaskCompleted None None,
        eventVersion = 2, timestamp = 8, metadata = None \<rparr>] ''b''"
  by (simp add: saveEvents_def getCurrentVersion_def insertEvent_def Let_def getEvents_def
        contiguous_def versionsOf_def)

text \<open>
  C10, amended. An accepted batch appends its events in order, the event at index \<open>i\<close>
  with sequence number \<open>expectedVersion + i + 1\<close> in place of the version it carried;
  the pairs (aggregate_id, version) of the table stay distinct; and when every event of
  the batch carries the \<open>aggregateId\<close> passed to \<open>saveEvents\<close>, every entity whose
  stored history was numbered \<open>1..N\<close> keeps a history so numbered.
\<close>

theorem saveEvents_sequence_numbers:
  assumes "saveEvents table aid events expectedVersion = (None, table')"
  shows "table' = table @ map (\<lambda>(i, event). event\<lparr>eventVersion := expectedVersion + int i + 1\<rparr>)
                            (enumerate 0 events)
    \<and> (distinct (map (\<lambda>row. (aggregateId row, eventVersion row)) table) \<longrightarrow>
         distinct (map (\<lambda>row. (aggregateId row, eventVersion row)) table'))
    \<and> ((\<forall>event \<in> set events. aggregateId event = aid) \<longrightarrow>
         (\<forall>a. contiguous table a \<longrightarrow> contiguous table' a))"
proof (cases "events = []")
  case True
  with assms show ?thesis by (simp add: saveEvents_def)
next
  case False
  with assms have cur: "getCurrentVersion table aid = expectedVersion"
    and ins: "insertEvents events expectedVersion 0 table = Inr table'"
    by (auto simp: saveEvents_def Let_def split: if_splits sum.splits)
  let ?new = "map (\<lambda>(i, event). event\<lparr>eventVersion := expectedVersion + int i + 1\<rparr>) (enumerate 0 events)"
  have eq: "table' = table @ ?new"
    using insertEvents_append [OF ins] .
  have d: "distinct (map (\<lambda>row. (aggregateId row, eventVersion row)) table')"
    if "distinct (map (\<lambda>row. (aggregateId row, eventVersion row)) table)"
    using insertEvents_distinct [OF ins that] .
  have c: "contiguous table' a"
    if own: "\<forall>event \<in> set events. aggregateId event = aid" and ca: "contiguous table a" for a
  proof (cases "a = aid")
    case False
    with own have "versionsOf table' a = versionsOf table a"
      by (simp add: eq versionsOf_append versionsOf_batch [where aid = aid])
    with ca show ?thesis by (simp add: contiguous_def)
  next
    case True
    let ?n = "length (versionsOf table aid)"
    from ca True have n: "expectedVersion = int ?n"
      using contiguous_current [of table aid] cur by simp
    from ca True have "versionsOf table aid = [1..int ?n]"
      by (simp add: contiguous_def)
    moreover from own have "versionsOf ?new aid = map (\<lambda>i. int ?n + int i + 1) [0..<length events]"
      using versionsOf_batch [of events aid expectedVersion 0 aid] n
      by (simp add: map_index_enumerate)
    ultimately have "versionsOf table' aid = [1..int (?n + length events)]"
      using upto_extend [of ?n "length events"] by (simp add: eq versionsOf_append)
    moreover from this have "length (versionsOf table' aid) = ?n + length events"
      by simp
    ultimately show ?thesis using True by (simp add: contiguous_def)
  qed
  from eq d c show ?thesis by blast
qed

theorem saveEvents_sequence_numbers_witness:
  "saveEvents
     [\<lparr> eventId = ''e1'', aggregateId = ''a'', body = TaskCreated [0x41] None MEDIUM None,
        eventVersion = 1, timestamp = 7, metadata = None \<rparr>]
     ''a''
     [\<lparr> eventId = ''e2'', aggregateId = ''a'', body = TaskUpdated None None (Some HIGH) None,
        eventVersion = 1, timestamp = 8, metadata = None \<rparr>,
      \<lparr> eventId = ''e3'', aggregateId = ''a'', body = TaskCompleted None None,
        eventVersion = 1, timestamp = 9, metadata = None \<rparr>] 1
   = (None,
     [\<lparr> eventId = ''e1'', aggregateId = ''a'', body = TaskCreated [0x41] None MEDIUM None,
        eventVersion = 1, timestamp = 7, metadata = None \<rparr>,
      \<lparr> eventId = ''e2'', aggregateId = ''a'', body = TaskUpdated None None (Some HIGH) None,
        eventVersion = 2, timestamp = 8, metadata = None \<rparr>,
      \<lparr> eventId = ''e3'', aggregateId = ''a'', body = TaskCompleted None None,
        eventVersion = 3, timestamp = 9, metadata = None \<rparr>])
   \<and> contiguous
     [\<lparr> eventId = ''e1'', aggregateId = ''a'', body = TaskCreated [0x41] None MEDIUM None,
        eventVersion = 1, timestamp = 7, metadata = None \<rparr>,
      \<lparr> eventId = ''e2'', aggregateId = ''a'', body = TaskUpdated None None (Some HIGH) None,
        eventVersion = 2, timestamp = 8, metadata = None \<rparr>,
      \<lparr> eventId = ''e3'', aggregateId = ''a'', body = TaskCompleted None None,
        eventVersion = 3, timestamp = 9, metadata = None \<rparr>] ''a''"
proof -
  let ?table = "[\<lparr> eventId = ''e1'', aggregateId = ''a'', body = TaskCreated [0x41] None MEDIUM None,
        eventVersion = 1, timestamp = 7, metadata = None \<rparr>]"
  let ?events = "[\<lparr> eventId = ''e2'', aggregateId = ''a'', body = TaskUpdated None None (Some HIGH) None,
        eventVersion = 1, timestamp = 8, metadata = None \<rparr>,
      \<lparr> eventId = ''e3'', aggregateId = ''a'', body = TaskCompleted None None,
        eventVersion = 1, timestamp = 9, metadata = None \<rparr>]"
  let ?table' = "[\<lparr> eventId = ''e1'', aggregateId = ''a'', body = TaskCreated [0x41] None MEDIUM None,
        eventVersion = 1, timestamp = 7, metadata = None \<rparr>,
      \<lparr> eventId = ''e2'', aggregateId = ''a'', body = TaskUpdated None None (Some HIGH) None,
        eventVersion = 2, timestamp = 8, metadata = None \<rparr>,
      \<lparr> eventId = ''e3'', aggregateId = ''a'', body = TaskCompleted None None,
        eventVersion = 3, timestamp = 9, metadata = None \<rparr>]"
  have s: "saveEvents ?table ''a'' ?events 1 = (None, ?table')"
    by (simp add: saveEvents_def getCurrentVersion_def insertEvent_def Let_def)
  have own: "\<forall>event \<in> set ?events. aggregateId event = ''a''"
    by simp
  have c: "contiguous ?table ''a''"
    by (simp add: contiguous_def versionsOf_def)
  from saveEvents_sequence_numbers [OF s] own c have "contiguous ?table' ''a''"
    by blast
  with s show ?thesis by simp
qed

text \<open>
  The batches of the repository satisfy the condition on the identifiers: every event
  that \<open>createNew\<close>, \<open>complete\<close>, \<open>cancel\<close> and \<open>update\<close> put in the buffer carries
  the identifier of the aggregate, which \<open>save\<close> passes to \<open>saveEvents\<close> with the buffer.
\<close>

lemma mutations_own_events:
  assumes "\<forall>e \<in> set (uncommittedEvents t). aggregateId e = taskId t"
  shows "\<forall>e \<in> set (uncommittedEvents (snd (complete completedBy completionNote eid now t))).
           aggregateId e = taskId (snd (complete completedBy completionNote eid now t))"
    and "\<forall>e \<in> set (uncommittedEvents (snd (cancel reason cancelledBy eid now t))).
           aggregateId e = taskId (snd (cancel reason cancelledBy eid now t))"
    and "\<forall>e \<in> set (uncommittedEvents (snd (update updates updatedBy eid now t))).
           aggregateId e = taskId (snd (update updates updatedBy eid now t))"
  using assms
  by (auto simp: complete_def cancel_def update_def raiseEvent_def applyEvent_def
        applyTaskCompletedEvent_def applyTaskCancelledEvent_def applyTaskUpdatedEvent_def
        Let_def split: option.splits)

lemma createNew_own_events:
  assumes "createNew ti d popt createdBy tid c u eid now = Inr task"
  shows "\<forall>e \<in> set (uncommittedEvents task). aggregateId e = taskId task"
  using assms
  by (auto simp: createNew_def newTaskAggregate_def raiseEvent_def applyEvent_def
        applyTaskCreatedEvent_def Let_def split: if_splits)

section \<open>Saving an aggregate\<close>

text \<open>
  C5. When the event store answers the append of \<open>save\<close> with a concurrency conflict,
  \<open>save\<close> throws that same error after this one call, the aggregate is as before the
  call, buffer included, and nothing is stored. The aggregate changes in \<open>save\<close> only
  when the append has succeeded, and then only by the clearing of its buffer.
\<close>

theorem save_conflict_untouched:
  "(saveEvents table (taskId task) (getUncommittedEvents task)
       (version task - int (length (getUncommittedEvents task)))
      = (Some (ConflictError e a i), table') \<longrightarrow>
      save task table = (Some (ConflictError e a i), task, table) \<and> table' = table)
   \<and> (fst (snd (save task table)) \<noteq> task \<longrightarrow>
        fst (save task table) = None
        \<and> fst (saveEvents table (taskId task) (getUncommittedEvents task)
                 (version task - int (length (getUncommittedEvents task)))) = None
        \<and> fst (snd (save task table)) = markEventsAsCommitted task)"
  by (auto simp: save_def Let_def split: prod.splits option.splits if_splits
           dest: saveEvents_error_table)
     (auto simp: saveEvents_def)

theorem save_conflict_untouched_witness:
  "save \<lparr> taskId = ''t1'', version = 0,
          uncommittedEvents = [\<lparr> eventId = ''e1'', aggregateId = ''t1'',
             body = TaskCreated [0x41] None MEDIUM None,
             eventVersion = 1, timestamp = 7, metadata = None \<rparr>],
          title = [0x41], description = None, priority = MEDIUM, status = PENDING,
          createdAt = 7, updatedAt = 7, completedAt = None, cancelledAt = None \<rparr> []
   = (Some (ConflictError (- 1) 0 ''t1''),
      \<lparr> taskId = ''t1'', version = 0,
          uncommittedEvents = [\<lparr> eventId = ''e1'', aggregateId = ''t1'',
             body = TaskCreated [0x41] None MEDIUM None,
             eventVersion = 1, timestamp = 7, metadata = None \<rparr>],
          title = [0x41], description = None, priority = MEDIUM, status = PENDING,
          createdAt = 7, updatedAt = 7, completedAt = None, cancelledAt = None \<rparr>, [])"
  using save_conflict_untouched [of "[]"
      "\<lparr> taskId = ''t1'', version = 0,
          uncommittedEvents = [\<lparr> eventId = ''e1'', aggregateId = ''t1'',
             body = TaskCreated [0x41] None MEDIUM None,
             eventVersion = 1, timestamp = 7, metadata = None \<rparr>],
          title = [0x41], description = None, priority = MEDIUM, status = PENDING,
          createdAt = 7, updatedAt = 7, completedAt = None, cancelledAt = None \<rparr>"
      "- 1" 0 "''t1''" "[]"]
  by (simp add: saveEvents_def getCurrentVersion_def getUncommittedEvents_def)

section \<open>Guards of the state machine\<close>

text \<open>
  C6. On an aggregate whose status is Completed or Cancelled, \<open>complete\<close> and
  \<open>cancel\<close> both throw a validation error on the field "status", the one of
  \<open>complete\<close> naming the current status; no event is produced, and the state, the
  version and the buffer of the aggregate are unchanged.
\<close>

theorem terminal_state_guard:
  assumes "status t = COMPLETED \<or> status t = CANCELLED"
  shows "complete completedBy completionNote eid now t =
           (Some (ValidationError (''Cannot complete task in '' @ statusValue (status t) @ '' status'')
                    ''status''), t)
         \<and> cancel reason cancelledBy eid' now' t =
           (Some (ValidationError (if status t = COMPLETED then ''Cannot cancel completed task''
                                   else ''Task is already cancelled'') ''status''), t)"
  using assms by (auto simp: complete_def cancel_def)

theorem terminal_state_guard_witness:
  "complete None None ''e3'' 9
     \<lparr> taskId = ''t1'', version = 2, uncommittedEvents = [], title = [0x41],
       description = None, priority = MEDIUM, status = CANCELLED, createdAt = 7,
       updatedAt = 8, completedAt = None, cancelledAt = Some 8 \<rparr>
   = (Some (ValidationError ''Cannot complete task in cancelled status'' ''status''),
      \<lparr> taskId = ''t1'', version = 2, uncommittedEvents = [], title = [0x41],
       description = None, priority = MEDIUM, status = CANCELLED, createdAt = 7,
       updatedAt = 8, completedAt = None, cancelledAt = Some 8 \<rparr>)
   \<and> cancel None None ''e4'' 10
     \<lparr> taskId = ''t1'', version = 2, uncommittedEvents = [], title = [0x41],
       description = None, priority = MEDIUM, status = CANCELLED, createdAt = 7,
       updatedAt = 8, completedAt = None, cancelledAt = Some 8 \<rparr>
   = (Some (ValidationError ''Task is already cancelled'' ''status''),
      \<lparr> taskId = ''t1'', version = 2, uncommittedEvents = [], title = [0x41],
       description = None, priority = MEDIUM, status = CANCELLED, createdAt = 7,
       updatedAt = 8, completedAt = None, cancelledAt = Some 8 \<rparr>)"
  using terminal_state_guard [of "\<lparr> taskId = ''t1'', version = 2, uncommittedEvents = [], title = [0x41],
       description = None, priority = MEDIUM, status = CANCELLED, createdAt = 7,
       updatedAt = 8, completedAt = None, cancelledAt = Some 8 \<rparr>" None None "''e3''" 9 None None "''e4''" 10]
  by simp

section \<open>Updating a task\<close>

text \<open>
  C7. Claimed: on a Pending aggregate, \<open>update\<close> with supplied values that all equal
  the current state after trimming returns normally, with no event and no change.
  The validation of \<open>update\<close> runs first and measures the title before trimming: for the
  task titled "A", the title "A" followed by 255 spaces trims to "A" and is rejected.
\<close>

theorem update_noop_counterexample:
  "(case createNew [0x41] None None None ''t1'' 5 6 ''e1'' 7 of
      Inl err \<Rightarrow> False
    | Inr t \<Rightarrow>
        status t = PENDING \<and> trim (0x41 # replicate 255 0x20) = title t
        \<and> update \<lparr>newTitle = Some (0x41 # replicate 255 0x20), newDescription = None,
                   newPriority = None\<rparr> None ''e2'' 8 t
          = (Some (ValidationError ''Task title must be less than 255 characters'' ''title''), t))"
  by (simp add: trim_padded createNew_def newTaskAggregate_def
        raiseEvent_def applyEvent_def applyTaskCreatedEvent_def update_def Let_def)
     (simp add: trim_def isWhiteSpace_def)

text \<open>
  C7, amended. On a Pending aggregate, \<open>update\<close> with supplied values that pass its
  validation (a supplied title is not empty after trimming and has at most 255 code units
  before trimming, a supplied description has at most 1000) and that all equal the current
  state after trimming returns normally and leaves the aggregate as it is: no event, the
  same version, the same fields.
\<close>

theorem update_noop:
  assumes "status t = PENDING"
    and "\<forall>x. newTitle updates = Some x \<longrightarrow> trim x = title t \<and> trim x \<noteq> [] \<and> length x \<le> 255"
    and "\<forall>x. newDescription updates = Some x \<longrightarrow> Some (trim x) = description t \<and> length x \<le> 1000"
    and "\<forall>x. newPriority updates = Some x \<longrightarrow> x = priority t"
  shows "update updates updatedBy eid now t = (None, t)"
proof -
  from assms(2) have t1: "\<not> (case newTitle updates of None \<Rightarrow> False
                               | Some x \<Rightarrow> x = [] \<or> length (trim x) = 0)"
    using trim_Nil by (auto split: option.splits)
  from assms(2) have t2: "\<not> (case newTitle updates of None \<Rightarrow> False | Some x \<Rightarrow> length x > 255)"
    by (auto split: option.splits)
  from assms(3) have t3: "\<not> (case newDescription updates of None \<Rightarrow> False
                               | Some x \<Rightarrow> length x > 1000)"
    by (auto split: option.splits)
  from assms have t4: "\<not> hasChanges updates t"
    by (auto simp: hasChanges_def split: option.splits)
  show ?thesis using assms(1) t1 t2 t3 t4 by (simp add: update_def)
qed

theorem update_noop_witness:
  "update \<lparr>newTitle = Some [0x20, 0x41], newDescription = None, newPriority = Some MEDIUM\<rparr>
     None ''e2'' 8
     \<lparr> taskId = ''t1'', version = 1, uncommittedEvents = [], title = [0x41],
       description = None, priority = MEDIUM, status = PENDING, createdAt = 7,
       updatedAt = 7, completedAt = None, cancelledAt = None \<rparr>
   = (None,
     \<lparr> taskId = ''t1'', version = 1, uncommittedEvents = [], title = [0x41],
       description = None, priority = MEDIUM, status = PENDING, createdAt = 7,
       updatedAt = 7, completedAt = None, cancelledAt = None \<rparr>)"
  using update_noop [of "\<lparr> taskId = ''t1'', version = 1, uncommittedEvents = [], title = [0x41],
       description = None, priority = MEDIUM, status = PENDING, createdAt = 7,
       updatedAt = 7, completedAt = None, cancelledAt = None \<rparr>"
       "\<lparr>newTitle = Some [0x20, 0x41], newDescription = None, newPriority = Some MEDIUM\<rparr>"
       None "''e2''" 8]
  by (simp add: trim_def isWhiteSpace_def)

text \<open>
  C8. Claimed: on a Pending aggregate, \<open>update\<close> with a supplied field that differs
  from the current state produces one update event whose payload holds only the fields
  that changed. The payload holds every supplied field: for the task titled "A" of medium
  priority, the update to title "A" and high priority produces an event that carries the
  title too. And the validation may reject the update: the empty title differs from "A"
  and produces no event.
\<close>

theorem update_event_counterexample:
  "(case createNew [0x41] None None None ''t1'' 5 6 ''e1'' 7 of
      Inl err \<Rightarrow> False
    | Inr t \<Rightarrow>
        status t = PENDING \<and> trim [0x41] = title t \<and> HIGH \<noteq> priority t
        \<and> map body (uncommittedEvents (snd (update
             \<lparr>newTitle = Some [0x41], newDescription = None, newPriority = Some HIGH\<rparr>
             None ''e2'' 8 t)))
          = [TaskCreated [0x41] None MEDIUM None, TaskUpdated (Some [0x41]) None (Some HIGH) None]
        \<and> trim [] \<noteq> title t
        \<and> update \<lparr>newTitle = Some [], newDescription = None, newPriority = None\<rparr>
             None ''e2'' 8 t
          = (Some (ValidationError ''Task title is required'' ''title''), t))"
  by (simp add: createNew_def newTaskAggregate_def hasChanges_def
        raiseEvent_def applyEvent_def applyTaskCreatedEvent_def applyTaskUpdatedEvent_def
        update_def Let_def trim_def isWhiteSpace_def)

text \<open>
  C8, amended. On a Pending aggregate, \<open>update\<close> with supplied values that pass its
  validation, one of which differs from the current state after trimming, produces
  exactly one update event, whose payload holds every supplied field, trimmed, changed or
  not; a field that is not supplied is unset in the event and unchanged in the aggregate
  after the event is applied.
\<close>

theorem update_event:
  assumes "status t = PENDING"
    and "\<forall>x. newTitle updates = Some x \<longrightarrow> trim x \<noteq> [] \<and> length x \<le> 255"
    and "\<forall>x. newDescription updates = Some x \<longrightarrow> length x \<le> 1000"
    and "hasChanges updates t"
  shows "update updates updatedBy eid now t =
           (None,
            t\<lparr> uncommittedEvents := uncommittedEvents t @
                 [\<lparr> eventId = eid, aggregateId = taskId t,
                    body = TaskUpdated (map_option trim (newTitle updates))
                             (map_option trim (newDescription updates))
                             (newPriority updates) updatedBy,
                    eventVersion = version t + 1, timestamp = now,
                    metadata = Some \<lparr>source = ''TaskAggregate.update'', isoTimestamp = now\<rparr> \<rparr>],
               title := (case newTitle updates of None \<Rightarrow> title t | Some x \<Rightarrow> trim x),
               description := (case newDescription updates of None \<Rightarrow> description t
                               | Some x \<Rightarrow> Some (trim x)),
               priority := (case newPriority updates of None \<Rightarrow> priority t | Some x \<Rightarrow> x),
               updatedAt := now \<rparr>)"
proof -
  from assms(2) have t1: "\<not> (case newTitle updates of None \<Rightarrow> False
                               | Some x \<Rightarrow> x = [] \<or> length (trim x) = 0)"
    using trim_Nil by (auto split: option.splits)
  from assms(2) have t2: "\<not> (case newTitle updates of None \<Rightarrow> False | Some x \<Rightarrow> length x > 255)"
    by (auto split: option.splits)
  from assms(3) have t3: "\<not> (case newDescription updates of None \<Rightarrow> False
                               | Some x \<Rightarrow> length x > 1000)"
    by (auto split: option.splits)
  show ?thesis using assms(1,4) t1 t2 t3
    by (simp add: update_def raiseEvent_def applyEvent_def applyTaskUpdatedEvent_def Let_def
             split: option.splits)
qed

theorem update_event_witness:
  "update \<lparr>newTitle = Some [0x42, 0x20], newDescription = None, newPriority = None\<rparr>
     None ''e2'' 8
     \<lparr> taskId = ''t1'', version = 1, uncommittedEvents = [], title = [0x41],
       description = Some [0x43], priority = MEDIUM, status = PENDING, createdAt = 7,
       updatedAt = 7, completedAt = None, cancelledAt = None \<rparr>
   = (None,
     \<lparr> taskId = ''t1'', version = 1,
       uncommittedEvents =
         [\<lparr> eventId = ''e2'', aggregateId = ''t1'',
            body = TaskUpdated (Some [0x42]) None None None,
            eventVersion = 2, timestamp = 8,
            metadata = Some \<lparr>source = ''TaskAggregate.update'', isoTimestamp = 8\<rparr> \<rparr>],
       title = [0x42],
       description = Some [0x43], priority = MEDIUM, status = PENDING, createdAt = 7,
       updatedAt = 8, completedAt = None, cancelledAt = None \<rparr>)"
  using update_event [of "\<lparr> taskId = ''t1'', version = 1, uncommittedEvents = [], title = [0x41],
       description = Some [0x43], priority = MEDIUM, status = PENDING, createdAt = 7,
       updatedAt = 7, completedAt = None, cancelledAt = None \<rparr>"
       "\<lparr>newTitle = Some [0x42, 0x20], newDescription = None, newPriority = None\<rparr>"
       None "''e2''" 8]
  by (simp add: trim_def isWhiteSpace_def hasChanges_def)

section \<open>Publishing events\<close>



end
